theory Spec2Isabelle
  imports Main
begin

section \<open>Python values used by the channel curator\<close>

text \<open>
  The channel rows handled by \<^verbatim>\<open>src/channel_manager.py\<close> are Python dictionaries whose
  values are strings. A dictionary entry is modelled by a \<open>field\<close>: the key is absent, the
  key holds \<^verbatim>\<open>None\<close>, or the key holds a string. A Python expression of type
  \<^verbatim>\<open>Optional[str]\<close> is a \<open>string option\<close>, with \<open>None\<close> for Python's \<^verbatim>\<open>None\<close>.
  Strings are lists of characters, and a literal stands for its ASCII characters. The
  character tests of the name validation (\<^verbatim>\<open>islower\<close>, \<^verbatim>\<open>isdigit\<close>, \<^verbatim>\<open>isspace\<close>) follow
  Python on code points below 128. The conversion \<^verbatim>\<open>str.lower\<close>, which decides how an action
  is read, is not fixed by the model: every function that calls it takes it as the
  parameter \<open>lower\<close>, so that what is proved holds for Python's conversion on any text.
\<close>

datatype field = Missing | NoneVal | Str string

text \<open>\<^verbatim>\<open>d.get(key)\<close> and \<^verbatim>\<open>d.get(key, default)\<close>.\<close>

fun dict_get :: "field \<Rightarrow> string option" where
  "dict_get Missing = None"
| "dict_get NoneVal = None"
| "dict_get (Str s) = Some s"

fun dict_get_default :: "field \<Rightarrow> string \<Rightarrow> string option" where
  "dict_get_default Missing d = Some d"
| "dict_get_default NoneVal d = None"
| "dict_get_default (Str s) d = Some s"

text \<open>Truth value of an optional string: \<^verbatim>\<open>None\<close> and the empty string are false.\<close>

fun truthy :: "string option \<Rightarrow> bool" where
  "truthy None = False"
| "truthy (Some s) = (s \<noteq> [])"

text \<open>
  A value handed to Python's \<^verbatim>\<open>int()\<close> or \<^verbatim>\<open>float()\<close>: the conversion yields a number, or
  raises an exception whose text is kept.
\<close>

datatype 'a conv = Converts 'a | ConvFails string

subsection \<open>Characters and strings\<close>

definition is_upper_char :: "char \<Rightarrow> bool" where
  "is_upper_char c = (65 \<le> (of_char c :: nat) \<and> (of_char c :: nat) \<le> 90)"

definition is_lower_char :: "char \<Rightarrow> bool" where
  "is_lower_char c = (97 \<le> (of_char c :: nat) \<and> (of_char c :: nat) \<le> 122)"

definition is_digit_char :: "char \<Rightarrow> bool" where
  "is_digit_char c = (48 \<le> (of_char c :: nat) \<and> (of_char c :: nat) \<le> 57)"

text \<open>\<^verbatim>\<open>str.isspace\<close> on ASCII: tab, line feed, vertical tab, form feed, carriage return,
  the four separators 28 to 31, and the space.\<close>

definition is_space_char :: "char \<Rightarrow> bool" where
  "is_space_char c = ((9 \<le> (of_char c :: nat) \<and> (of_char c :: nat) \<le> 13)
     \<or> (28 \<le> (of_char c :: nat) \<and> (of_char c :: nat) \<le> 32))"

definition lower_char :: "char \<Rightarrow> char" where
  "lower_char c = (if is_upper_char c then char_of ((of_char c :: nat) + 32) else c)"

text \<open>
  \<^verbatim>\<open>s.lower()\<close> is a parameter of the model, of type \<open>lowering\<close>. On ASCII text it is
  \<open>ascii_lower\<close>, which the concrete runs use.
\<close>

type_synonym lowering = "string \<Rightarrow> string"

definition ascii_lower :: lowering where
  "ascii_lower s = map lower_char s"

text \<open>\<^verbatim>\<open>s.islower()\<close>: no cased character is uppercase and there is at least one cased
  character.\<close>

definition str_islower :: "string \<Rightarrow> bool" where
  "str_islower s = (\<not> list_ex is_upper_char s \<and> list_ex is_lower_char s)"

text \<open>\<^verbatim>\<open>s.lstrip('#')\<close> and \<^verbatim>\<open>s.strip()\<close>\<close>

definition lstrip_hash :: "string \<Rightarrow> string" where
  "lstrip_hash s = dropWhile (\<lambda>c. c = CHR ''#'') s"

definition str_strip :: "string \<Rightarrow> string" where
  "str_strip s = rev (dropWhile is_space_char (rev (dropWhile is_space_char s)))"

definition apostrophe :: string where
  "apostrophe = [CHR 0x27]"

section \<open>Channel actions (\<^verbatim>\<open>src/channel_actions.py\<close>)\<close>

text \<open>The values of the string enumeration \<^verbatim>\<open>ChannelAction\<close>.\<close>

definition KEEP :: string where "KEEP = ''keep''"
definition ARCHIVE :: string where "ARCHIVE = ''archive''"
definition RENAME :: string where "RENAME = ''rename''"
definition NEW :: string where "NEW = ''new''"
definition UPDATE_DESCRIPTION :: string where "UPDATE_DESCRIPTION = ''update_description''"

definition ChannelAction_values :: "string list" where
  "ChannelAction_values = [KEEP, ARCHIVE, RENAME, NEW, UPDATE_DESCRIPTION]"

text \<open>\<^verbatim>\<open>ChannelActionResult\<close>\<close>

record ChannelActionResult =
  success :: bool
  message :: string

section \<open>Channel rows and the processing order (\<^verbatim>\<open>src/channel_manager.py\<close>)\<close>

text \<open>
  A row of the action list. \<open>ch_member_count\<close> is \<open>None\<close> when the key is absent and
  otherwise says what \<^verbatim>\<open>int()\<close> makes of the value.
\<close>

record channel =
  ch_channel_id :: field
  ch_name :: field
  ch_action :: field
  ch_target_value :: field
  ch_member_count :: "int conv option"

text \<open>
  The sort key of \<^verbatim>\<open>execute_channel_actions\<close>: a falsy action (absent, \<^verbatim>\<open>None\<close>, empty)
  has priority 3; otherwise the action is lowercased and compared with the enumeration
  values.
\<close>

definition action_priority :: "lowering \<Rightarrow> channel \<Rightarrow> nat" where
  "action_priority lower channel =
     (let action = dict_get_default (ch_action channel) [] in
      if \<not> truthy action then 3
      else (case action of
              None \<Rightarrow> 3
            | Some a \<Rightarrow>
                (let action = lower a in
                 if action = KEEP then 2
                 else if action = RENAME then 0
                 else if action = ARCHIVE then 1
                 else 3)))"

text \<open>
  \<^verbatim>\<open>channels = sorted(channels, key=action_priority)\<close>. Python's \<^verbatim>\<open>sorted\<close> is a stable
  sort, and a list has exactly one stable sorted arrangement for a given key, so the
  stable insertion sort \<open>sort_key\<close> computes the same list.
\<close>

definition sorted_channels :: "lowering \<Rightarrow> channel list \<Rightarrow> channel list" where
  "sorted_channels lower channels = sort_key (action_priority lower) channels"


section \<open>Name validation for rename\<close>

text \<open>
  The format checks that \<^verbatim>\<open>get_user_approval\<close> applies to the target of a rename, in the
  order of the source: the length, then \<^verbatim>\<open>islower\<close> together with the space and period
  tests, then the character test. The result is \<open>True\<close> when one of them makes the function
  return \<^verbatim>\<open>False\<close>.
\<close>

definition valid_name_char :: "char \<Rightarrow> bool" where
  "valid_name_char c = (is_lower_char c \<or> is_digit_char c \<or> c \<in> set ''-_'')"

definition approval_name_invalid :: "string \<Rightarrow> bool" where
  "approval_name_invalid target_value =
     (if length target_value > 80 then True
      else if \<not> str_islower target_value \<or> CHR '' '' \<in> set target_value
              \<or> CHR ''.'' \<in> set target_value then True
      else if \<not> list_all valid_name_char target_value then True
      else False)"

text \<open>
  The validation at the head of \<^verbatim>\<open>rename_channel\<close>: \<open>Some\<close> of the failed result it returns,
  or \<open>None\<close> when the name passes and the remote call is made.
\<close>

definition rename_validation :: "string \<Rightarrow> string \<Rightarrow> ChannelActionResult option" where
  "rename_validation old_name new_name =
     (if new_name = [] then
        Some \<lparr>success = False,
          message = ''Cannot rename '' @ old_name @ '': New name cannot be empty''\<rparr>
      else if length new_name > 80 then
        Some \<lparr>success = False,
          message = ''Cannot rename '' @ old_name @ '': New name exceeds 80 characters''\<rparr>
      else if \<not> list_all valid_name_char new_name \<or> CHR ''.'' \<in> set new_name then
        Some \<lparr>success = False,
          message = ''Cannot rename '' @ old_name
            @ '': Channel names can only contain lowercase letters, ''
            @ ''numbers, hyphens, and underscores''\<rparr>
      else None)"

section \<open>The remote client and the terminal\<close>

text \<open>
  A channel object of a remote response, with the keys the program reads.
  \<open>ci_num_members\<close> is \<open>None\<close> when the key is absent; \<open>ci_last_read\<close> is \<open>None\<close> when the
  key is absent or falsy and otherwise says whether the timestamp can be rendered.
\<close>

record chan_info =
  ci_id :: string
  ci_name :: string
  ci_is_archived :: bool
  ci_is_general :: bool
  ci_is_member :: bool
  ci_num_members :: "int conv option"
  ci_last_read :: "unit conv option"

text \<open>
  A response that the client returns instead of raising: the \<^verbatim>\<open>ok\<close> flag, the
  \<^verbatim>\<open>error\<close> code if there is one, the \<^verbatim>\<open>channels\<close> list, the \<^verbatim>\<open>next_cursor\<close> of
  \<^verbatim>\<open>response_metadata\<close>, and the \<^verbatim>\<open>channel\<close> object if there is one.
\<close>

record response =
  r_ok :: bool
  r_error :: "string option"
  r_channels :: "chan_info list"
  r_next_cursor :: "string option"
  r_channel :: "chan_info option"

text \<open>
  The calls made on the client. \<open>ConversationsList\<close> carries \<^verbatim>\<open>exclude_archived\<close>,
  \<^verbatim>\<open>limit\<close> and \<^verbatim>\<open>cursor\<close>; \<open>ChatPostMessage\<close> carries the channel and the id of the
  redirect target that the notice text mentions.
\<close>

datatype call =
    ConversationsList bool "nat option" "string option"
  | ConversationsInfo string
  | ConversationsArchive string
  | ConversationsRename string string
  | ConversationsSetPurpose string string
  | ConversationsJoin string
  | ConversationsLeave string
  | ChatPostMessage string string


text \<open>What the program does to the outside: remote calls, sleeps, and prompts on the
  terminal.\<close>

datatype event = Call call | Sleep int | Prompt


text \<open>
  Exceptions. \<open>SlackApiError\<close> carries the error code of its response, the
  \<^verbatim>\<open>Retry-After\<close> header if the response has one, and the text of the exception;
  \<open>PyException\<close> is any other subclass of \<^verbatim>\<open>Exception\<close>, with its text.
  \<open>KeyboardInterrupt\<close> is not a subclass of \<^verbatim>\<open>Exception\<close>.
\<close>

datatype exn =
    SlackApiError string "int conv option" string
  | KeyboardInterrupt
  | PyException string

fun exn_text :: "exn \<Rightarrow> string" where
  "exn_text (SlackApiError code ra txt) = txt"
| "exn_text KeyboardInterrupt = []"
| "exn_text (PyException txt) = txt"

text \<open>
  The client answers a call with a response, with a structured error, or with an
  unexpected failure. Its answer may depend on everything that happened before.
\<close>

datatype reply =
    Returns response
  | ApiError string "int conv option" string
  | Fails string

type_synonym client = "event list \<Rightarrow> call \<Rightarrow> reply"

text \<open>
  The world outside the program: the events so far, and the lines still to be read from
  the terminal. Reading past the last line raises \<^verbatim>\<open>EOFError\<close>.
\<close>

record world =
  trace :: "event list"
  stdin :: "string list"

type_synonym 'a io = "(exn + 'a) \<times> world"

definition remote :: "client \<Rightarrow> call \<Rightarrow> world \<Rightarrow> response io" where
  "remote client c w =
     (let w' = w\<lparr>trace := trace w @ [Call c]\<rparr> in
      case client (trace w) c of
        Returns r \<Rightarrow> (Inr r, w')
      | ApiError code ra txt \<Rightarrow> (Inl (SlackApiError code ra txt), w')
      | Fails txt \<Rightarrow> (Inl (PyException txt), w'))"

text \<open>\<^verbatim>\<open>await asyncio.sleep(n)\<close>\<close>

definition sleep :: "int \<Rightarrow> world \<Rightarrow> world" where
  "sleep n w = w\<lparr>trace := trace w @ [Sleep n]\<rparr>"

text \<open>\<^verbatim>\<open>response["channel"]\<close> raises \<^verbatim>\<open>KeyError\<close> when the key is absent.\<close>

definition key_error :: "string \<Rightarrow> exn" where
  "key_error k = PyException (apostrophe @ k @ apostrophe)"

text \<open>\<^verbatim>\<open>int(d.get(key, default))\<close>\<close>

fun to_int :: "int conv option \<Rightarrow> int \<Rightarrow> exn + int" where
  "to_int None d = Inr d"
| "to_int (Some (Converts n)) d = Inr n"
| "to_int (Some (ConvFails txt)) d = Inl (PyException txt)"

text \<open>\<^verbatim>\<open>next((ch for ch in channels if ch["name"] == n), None)\<close>\<close>

definition find_by_name :: "string \<Rightarrow> chan_info list \<Rightarrow> chan_info option" where
  "find_by_name n channels = List.find (\<lambda>ch. ci_name ch = n) channels"

text \<open>\<^verbatim>\<open>any(ch["name"] == n for ch in channels)\<close>\<close>

definition name_taken :: "string \<Rightarrow> chan_info list \<Rightarrow> bool" where
  "name_taken n channels = list_ex (\<lambda>ch. ci_name ch = n) channels"

section \<open>Listing the channels (\<^verbatim>\<open>get_all_channels\<close>, \<^verbatim>\<open>get_channel_info\<close>)\<close>

text \<open>
  The pagination loop of \<^verbatim>\<open>get_all_channels\<close>, with its local variables \<^verbatim>\<open>cursor\<close> and
  \<^verbatim>\<open>channels\<close>. It runs for as long as the service returns a cursor, so it need not
  return: \<open>None\<close> is a run that never ends. A response that is not ok raises a
  \<^verbatim>\<open>SlackApiError\<close> inside the \<^verbatim>\<open>try\<close>, so it is handled like one raised by the client:
  \<^verbatim>\<open>missing_scope\<close> and \<^verbatim>\<open>invalid_auth\<close> become a \<^verbatim>\<open>ValueError\<close>, any other error is raised
  again.
\<close>

definition scope_error_text :: string where
  "scope_error_text = ''Missing required scopes or invalid authentication. ''
     @ ''Ensure your token has channels:read and groups:read scopes.''"

definition listing_error :: "string \<Rightarrow> int conv option \<Rightarrow> string \<Rightarrow> exn" where
  "listing_error error_code ra txt =
     (if error_code \<in> set [''missing_scope'', ''invalid_auth'']
      then PyException scope_error_text
      else SlackApiError error_code ra txt)"

partial_function (option) get_all_channels_loop ::
  "client \<Rightarrow> string option \<Rightarrow> chan_info list \<Rightarrow> world \<Rightarrow> (chan_info list io) option"
where
  "get_all_channels_loop client cursor channels w =
     (case remote client (ConversationsList True (Some 200) cursor) w of
        (Inl (SlackApiError code ra txt), w1) \<Rightarrow> Some (Inl (listing_error code ra txt), w1)
      | (Inl e, w1) \<Rightarrow> Some (Inl e, w1)
      | (Inr response, w1) \<Rightarrow>
          if \<not> r_ok response then
            Some (Inl (listing_error
              (case r_error response of None \<Rightarrow> ''unknown_error'' | Some c \<Rightarrow> c)
              None ''Failed to fetch channels''), w1)
          else if \<not> truthy (r_next_cursor response) then
            Some (Inr (channels @ r_channels response), w1)
          else
            get_all_channels_loop client (r_next_cursor response)
              (channels @ r_channels response) (sleep 1 w1))"

declare get_all_channels_loop.simps [code]

definition get_all_channels :: "client \<Rightarrow> world \<Rightarrow> (chan_info list io) option" where
  "get_all_channels client w = get_all_channels_loop client None [] w"

text \<open>
  \<^verbatim>\<open>get_channel_info\<close>: the channel object, or the empty dictionary (\<open>None\<close>) when the
  client raises a \<^verbatim>\<open>SlackApiError\<close>. Any other exception escapes.
\<close>

definition get_channel_info :: "client \<Rightarrow> string \<Rightarrow> world \<Rightarrow> chan_info option io" where
  "get_channel_info client channel_id w =
     (case remote client (ConversationsInfo channel_id) w of
        (Inr response, w1) \<Rightarrow>
          (case r_channel response of
             None \<Rightarrow> (Inl (key_error ''channel''), w1)
           | Some channel_info \<Rightarrow> (Inr (Some channel_info), w1))
      | (Inl (SlackApiError code ra txt), w1) \<Rightarrow> (Inr None, w1)
      | (Inl e, w1) \<Rightarrow> (Inl e, w1))"


section \<open>The approval gate (\<^verbatim>\<open>get_user_approval\<close>)\<close>

text \<open>\<^verbatim>\<open>if current_channels:\<close> holds for a list that is given and not empty.\<close>

fun snapshot :: "chan_info list option \<Rightarrow> chan_info list option" where
  "snapshot None = None"
| "snapshot (Some []) = None"
| "snapshot (Some (c # cs)) = Some (c # cs)"

text \<open>
  The stages of the gate return \<open>Inr (Some b)\<close> when the function returns \<open>b\<close> there,
  \<open>Inr None\<close> when control goes on to the next stage, and \<open>Inl e\<close> when \<open>e\<close> is raised.
\<close>

text \<open>Rendering \<^verbatim>\<open>last_read\<close> with \<^verbatim>\<open>float\<close> and \<^verbatim>\<open>datetime.fromtimestamp\<close>.\<close>

fun show_last_read :: "chan_info option \<Rightarrow> exn option" where
  "show_last_read None = None"
| "show_last_read (Some channel_info) =
     (case ci_last_read channel_info of
        Some (ConvFails txt) \<Rightarrow> Some (PyException txt)
      | _ \<Rightarrow> None)"

text \<open>
  The body of the \<^verbatim>\<open>try\<close> for an archive with a target: the target is looked up by name
  in the snapshot, or in a fresh listing when no snapshot is given; a target that is
  found is shown with its member count, compared with the member count of the row.
\<close>

definition target_preview_body ::
  "client \<Rightarrow> channel \<Rightarrow> string \<Rightarrow> chan_info list option \<Rightarrow> world \<Rightarrow> bool option io"
where
  "target_preview_body client channel target_value current_channels w =
     (let target_name = lstrip_hash target_value in
      case (case snapshot current_channels of
              Some cs \<Rightarrow> (Inr (find_by_name target_name cs), w)
            | None \<Rightarrow>
                (case remote client (ConversationsList True None None) w of
                   (Inl e, w1) \<Rightarrow> (Inl e, w1)
                 | (Inr response, w1) \<Rightarrow>
                     (Inr (find_by_name target_name (r_channels response)), w1))) of
        (Inl e, w1) \<Rightarrow> (Inl e, w1)
      | (Inr None, w1) \<Rightarrow> (Inr (Some False), w1)
      | (Inr (Some target), w1) \<Rightarrow>
          (case get_channel_info client (ci_id target) w1 of
             (Inl e, w2) \<Rightarrow> (Inl e, w2)
           | (Inr target_info, w2) \<Rightarrow>
               (case to_int (ch_member_count channel) 0 of
                  Inl e \<Rightarrow> (Inl e, w2)
                | Inr source_members \<Rightarrow>
                    (case to_int (case target_info of None \<Rightarrow> None
                                  | Some ti \<Rightarrow> ci_num_members ti) 0 of
                       Inl e \<Rightarrow> (Inl e, w2)
                     | Inr target_members \<Rightarrow> (Inr None, w2)))))"

text \<open>The \<^verbatim>\<open>try\<close> with its \<^verbatim>\<open>except SlackApiError: return False\<close>.\<close>

definition target_preview ::
  "client \<Rightarrow> channel \<Rightarrow> string \<Rightarrow> chan_info list option \<Rightarrow> world \<Rightarrow> bool option io"
where
  "target_preview client channel target_value current_channels w =
     (case target_preview_body client channel target_value current_channels w of
        (Inl (SlackApiError code ra txt), w1) \<Rightarrow> (Inr (Some False), w1)
      | r \<Rightarrow> r)"

text \<open>
  The validation of a rename target: the format checks, then the duplicate check against
  the snapshot, or against a fresh listing when no snapshot is given (a structured error
  of that listing is only a warning).
\<close>

definition rename_check ::
  "client \<Rightarrow> string \<Rightarrow> chan_info list option \<Rightarrow> world \<Rightarrow> bool option io"
where
  "rename_check client target_value current_channels w =
     (if approval_name_invalid target_value then (Inr (Some False), w)
      else (case snapshot current_channels of
              Some cs \<Rightarrow>
                if name_taken target_value cs then (Inr (Some False), w) else (Inr None, w)
            | None \<Rightarrow>
                (case remote client (ConversationsList True None None) w of
                   (Inr response, w1) \<Rightarrow>
                     if name_taken target_value (r_channels response)
                     then (Inr (Some False), w1) else (Inr None, w1)
                 | (Inl (SlackApiError code ra txt), w1) \<Rightarrow> (Inr None, w1)
                 | (Inl e, w1) \<Rightarrow> (Inl e, w1))))"

text \<open>
  The prompt loop: each \<^verbatim>\<open>input()\<close> is a \<open>Prompt\<close> event and takes one line.
  \<^verbatim>\<open>q\<close> raises \<^verbatim>\<open>KeyboardInterrupt\<close>, \<^verbatim>\<open>y\<close> and \<^verbatim>\<open>n\<close> return, any other line asks again.
\<close>

fun prompt_loop ::
  "lowering \<Rightarrow> string list \<Rightarrow> event list \<Rightarrow> (exn + bool) \<times> string list \<times> event list"
where
  "prompt_loop lower [] tr = (Inl (PyException ''EOF when reading a line''), [], tr @ [Prompt])"
| "prompt_loop lower (line # rest) tr =
     (let response = lower line in
      if response = ''q'' then (Inl KeyboardInterrupt, rest, tr @ [Prompt])
      else if response \<in> set [''y'', ''n''] then (Inr (response = ''y''), rest, tr @ [Prompt])
      else prompt_loop lower rest (tr @ [Prompt]))"

definition ask_operator :: "lowering \<Rightarrow> world \<Rightarrow> bool io" where
  "ask_operator lower w =
     (case prompt_loop lower (stdin w) (trace w) of
        (r, rest, tr) \<Rightarrow> (r, w\<lparr>trace := tr, stdin := rest\<rparr>))"

text \<open>
  The two guarded blocks of the gate: \<^verbatim>\<open>if action == "archive" and target_value\<close> and
  \<^verbatim>\<open>if action == "rename" and target_value\<close>. A falsy target (\<^verbatim>\<open>None\<close> or the empty
  string) passes both without any check.
\<close>

definition archive_stage ::
  "client \<Rightarrow> channel \<Rightarrow> string \<Rightarrow> string option \<Rightarrow> chan_info list option \<Rightarrow> world
     \<Rightarrow> bool option io"
where
  "archive_stage client channel action target_value current_channels w =
     (case target_value of
        Some t \<Rightarrow>
          if action = ARCHIVE \<and> t \<noteq> []
          then target_preview client channel t current_channels w
          else (Inr None, w)
      | None \<Rightarrow> (Inr None, w))"

definition rename_stage ::
  "client \<Rightarrow> string \<Rightarrow> string option \<Rightarrow> chan_info list option \<Rightarrow> world \<Rightarrow> bool option io"
where
  "rename_stage client action target_value current_channels w =
     (case target_value of
        Some t \<Rightarrow>
          if action = RENAME \<and> t \<noteq> []
          then rename_check client t current_channels w
          else (Inr None, w)
      | None \<Rightarrow> (Inr None, w))"

text \<open>
  \<^verbatim>\<open>get_user_approval(client, channel, action, target_value, current_channels)\<close>:
  \<open>Inr True\<close> is approve, \<open>Inr False\<close> is skip, and \<open>Inl KeyboardInterrupt\<close> is the
  operator's abort. \<^verbatim>\<open>channel['name']\<close> and \<^verbatim>\<open>channel["channel_id"]\<close> raise
  \<^verbatim>\<open>KeyError\<close> when the key is absent; the name is only shown. The orchestrator calls the
  gate with a channel id that is a string; a channel id that holds \<^verbatim>\<open>None\<close> is treated
  like an absent one.
\<close>

definition get_user_approval ::
  "lowering \<Rightarrow> client \<Rightarrow> channel \<Rightarrow> string \<Rightarrow> string option \<Rightarrow> chan_info list option \<Rightarrow> world
     \<Rightarrow> bool io"
where
  "get_user_approval lower client channel action target_value current_channels w =
     (case ch_name channel of
        Missing \<Rightarrow> (Inl (key_error ''name''), w)
      | _ \<Rightarrow>
          (case ch_channel_id channel of
             Str channel_id \<Rightarrow>
               (case get_channel_info client channel_id w of
                  (Inl e, w1) \<Rightarrow> (Inl e, w1)
                | (Inr channel_info, w1) \<Rightarrow>
                    (case show_last_read channel_info of
                       Some e \<Rightarrow> (Inl e, w1)
                     | None \<Rightarrow>
                         (case archive_stage client channel action target_value
                                 current_channels w1 of
                            (Inl e, w2) \<Rightarrow> (Inl e, w2)
                          | (Inr (Some b), w2) \<Rightarrow> (Inr b, w2)
                          | (Inr None, w2) \<Rightarrow>
                              (case rename_stage client action target_value
                                      current_channels w2 of
                                 (Inl e, w3) \<Rightarrow> (Inl e, w3)
                               | (Inr (Some b), w3) \<Rightarrow> (Inr b, w3)
                               | (Inr None, w3) \<Rightarrow> ask_operator lower w3))))
           | _ \<Rightarrow> (Inl (key_error ''channel_id''), w)))"

section \<open>The action handler (\<^verbatim>\<open>ChannelActionHandler\<close>)\<close>

text \<open>
  The handler's functions return \<open>Inr (Some r)\<close> for a \<^verbatim>\<open>ChannelActionResult\<close> \<open>r\<close>,
  \<open>Inr None\<close> when the Python function ends without a \<^verbatim>\<open>return\<close> (its value is then
  \<^verbatim>\<open>None\<close>), and \<open>Inl e\<close> when \<open>e\<close> is raised.
\<close>

definition failed_result :: "string \<Rightarrow> ChannelActionResult" where
  "failed_result msg = \<lparr>success = False, message = msg\<rparr>"

definition ok_result :: "string \<Rightarrow> ChannelActionResult" where
  "ok_result msg = \<lparr>success = True, message = msg\<rparr>"

subsection \<open>\<^verbatim>\<open>rename_channel\<close>\<close>

text \<open>\<^verbatim>\<open>error_messages.get(error, ...)\<close> of \<^verbatim>\<open>rename_channel\<close>.\<close>

definition rename_error_message :: "string \<Rightarrow> string \<Rightarrow> string \<Rightarrow> string" where
  "rename_error_message old_name new_name error =
     (if error = ''not_authorized'' then
        ''You don'' @ apostrophe @ ''t have permission to rename this channel. ''
        @ ''Only channel creators, workspace admins, or channel managers can rename channels.''
      else if error = ''name_taken'' then
        ''Cannot rename '' @ old_name @ '': The name '' @ apostrophe @ new_name @ apostrophe
        @ '' is already taken''
      else if error = ''invalid_name'' then
        ''Cannot rename '' @ old_name @ '': Invalid channel name format''
      else if error = ''not_in_channel'' then
        ''Cannot rename '' @ old_name @ '': You must be a member of the channel''
      else if error = ''is_archived'' then
        ''Cannot rename '' @ old_name @ '': Channel is archived''
      else ''Failed to rename '' @ old_name @ '': '' @ error)"

definition rename_channel ::
  "client \<Rightarrow> string \<Rightarrow> string \<Rightarrow> string \<Rightarrow> world \<Rightarrow> ChannelActionResult option io"
where
  "rename_channel client channel_id old_name new_name w =
     (case rename_validation old_name new_name of
        Some res \<Rightarrow> (Inr (Some res), w)
      | None \<Rightarrow>
          (case remote client (ConversationsRename channel_id new_name) w of
             (Inr response, w1) \<Rightarrow>
               if r_ok response then
                 (case r_channel response of
                    None \<Rightarrow> (Inl (key_error ''channel''), w1)
                  | Some c \<Rightarrow>
                      (let actual_name = ci_name c in
                       if actual_name \<noteq> new_name then
                         (Inr (Some (ok_result
                            (''Successfully renamed '' @ old_name @ '' to '' @ actual_name
                             @ '' (name was modified to meet Slack'' @ apostrophe
                             @ ''s requirements)''))), w1)
                       else
                         (Inr (Some (ok_result
                            (''Successfully renamed '' @ old_name @ '' to '' @ new_name))), w1)))
               else (Inr None, w1)
           | (Inl (SlackApiError error ra txt), w1) \<Rightarrow>
               (Inr (Some (failed_result (rename_error_message old_name new_name error))), w1)
           | (Inl e, w1) \<Rightarrow> (Inl e, w1)))"


subsection \<open>\<^verbatim>\<open>archive_channel\<close>\<close>

text \<open>\<^verbatim>\<open>error_messages.get(error, ...)\<close> of \<^verbatim>\<open>archive_channel\<close>.\<close>

definition archive_error_message :: "string \<Rightarrow> string \<Rightarrow> string" where
  "archive_error_message channel_name error =
     (if error = ''already_archived'' then ''#'' @ channel_name @ '' is already archived''
      else if error = ''cant_archive_general'' then
        ''Cannot archive #'' @ channel_name @ '': This is the workspace'' @ apostrophe
        @ ''s general channel''
      else if error = ''cant_archive_required'' then
        ''Cannot archive #'' @ channel_name @ '': This is a required channel''
      else if error = ''not_in_channel'' then
        ''Cannot archive #'' @ channel_name @ '': You must be a member of the channel''
      else if error = ''restricted_action'' then
        ''Cannot archive #'' @ channel_name
        @ '': Your workspace settings prevent channel archiving''
      else if error = ''missing_scope'' then
        ''Cannot archive #'' @ channel_name @ '': Missing required permissions. ''
        @ ''Need channels:write for public channels or groups:write for private channels.''
      else ''Failed to archive #'' @ channel_name @ '': '' @ error)"

text \<open>The first inner \<^verbatim>\<open>try\<close>: the state of the channel to archive.\<close>

definition archive_precheck ::
  "client \<Rightarrow> string \<Rightarrow> string \<Rightarrow> world \<Rightarrow> ChannelActionResult option io"
where
  "archive_precheck client channel_id channel_name w =
     (case remote client (ConversationsInfo channel_id) w of
        (Inr response, w1) \<Rightarrow>
          (case r_channel response of
             None \<Rightarrow> (Inl (key_error ''channel''), w1)
           | Some channel_info \<Rightarrow>
               if ci_is_archived channel_info then
                 (Inr (Some (failed_result (''#'' @ channel_name @ '' is already archived''))), w1)
               else if ci_is_general channel_info then
                 (Inr (Some (failed_result
                    (''Cannot archive #'' @ channel_name @ '': This is the workspace''
                     @ apostrophe @ ''s general channel''))), w1)
               else (Inr None, w1))
      | (Inl (SlackApiError error ra txt), w1) \<Rightarrow>
          if error = ''channel_not_found'' then
            (Inr (Some (failed_result
               (''Cannot archive #'' @ channel_name @ '': Channel not found''))), w1)
          else (Inl (SlackApiError error ra txt), w1)
      | (Inl e, w1) \<Rightarrow> (Inl e, w1))"

text \<open>
  The paginated search for the redirect target, used when no channel list is given. It
  runs for as long as the service returns a cursor and the target is not on the page.
\<close>

partial_function (option) find_target_pages ::
  "client \<Rightarrow> string \<Rightarrow> string option \<Rightarrow> world \<Rightarrow> (chan_info option io) option"
where
  "find_target_pages client target_channel cursor w =
     (case remote client (ConversationsList False (Some 200) cursor) w of
        (Inl e, w1) \<Rightarrow> Some (Inl e, w1)
      | (Inr response, w1) \<Rightarrow>
          (case find_by_name target_channel (r_channels response) of
             Some found_target \<Rightarrow> Some (Inr (Some found_target), w1)
           | None \<Rightarrow>
               if \<not> truthy (r_next_cursor response) then Some (Inr None, w1)
               else find_target_pages client target_channel (r_next_cursor response) w1))"

declare find_target_pages.simps [code]

text \<open>
  Joining the channel and posting the redirect notice. A \<^verbatim>\<open>SlackApiError\<close> of the join is
  ignored and one of the post is only a warning; any other exception escapes.
\<close>

definition post_redirect_notice ::
  "client \<Rightarrow> string \<Rightarrow> string \<Rightarrow> world \<Rightarrow> exn option \<times> world"
where
  "post_redirect_notice client channel_id target_id w =
     (case (case remote client (ConversationsJoin channel_id) w of
              (Inl (SlackApiError error ra txt), w1) \<Rightarrow> (None, w1)
            | (Inl e, w1) \<Rightarrow> (Some e, w1)
            | (Inr response, w1) \<Rightarrow> (None, w1)) of
        (Some e, w1) \<Rightarrow> (Some e, w1)
      | (None, w1) \<Rightarrow>
          (case remote client (ChatPostMessage channel_id target_id) w1 of
             (Inl (SlackApiError error ra txt), w2) \<Rightarrow> (None, w2)
           | (Inl e, w2) \<Rightarrow> (Some e, w2)
           | (Inr response, w2) \<Rightarrow> (None, w2)))"

text \<open>The block for a redirect target, with its \<^verbatim>\<open>except SlackApiError\<close>.\<close>

definition redirect_after_lookup ::
  "client \<Rightarrow> string \<Rightarrow> string \<Rightarrow> string \<Rightarrow> chan_info option io
     \<Rightarrow> ChannelActionResult option io"
where
  "redirect_after_lookup client channel_id channel_name target_channel lookup =
     (case lookup of
        (Inl e, w1) \<Rightarrow> (Inl e, w1)
      | (Inr None, w1) \<Rightarrow>
          (Inr (Some (failed_result
             (''Cannot archive #'' @ channel_name @ '': Target channel #'' @ target_channel
              @ '' does not exist''))), w1)
      | (Inr (Some target), w1) \<Rightarrow>
          if ci_is_archived target then
            (Inr (Some (failed_result
               (''Cannot archive #'' @ channel_name @ '': Target channel #'' @ target_channel
                @ '' is archived''))), w1)
          else
            (case post_redirect_notice client channel_id (ci_id target) w1 of
               (Some e, w2) \<Rightarrow> (Inl e, w2)
             | (None, w2) \<Rightarrow> (Inr None, w2)))"

definition archive_redirect ::
  "client \<Rightarrow> string \<Rightarrow> string \<Rightarrow> string \<Rightarrow> chan_info list option \<Rightarrow> world
     \<Rightarrow> (ChannelActionResult option io) option"
where
  "archive_redirect client channel_id channel_name target_channel current_channels w =
     (case (case snapshot current_channels of
              Some cs \<Rightarrow> Some (Inr (find_by_name target_channel cs), w)
            | None \<Rightarrow> find_target_pages client target_channel None w) of
        None \<Rightarrow> None
      | Some lookup \<Rightarrow>
          Some (case redirect_after_lookup client channel_id channel_name target_channel lookup of
                  (Inl (SlackApiError error ra txt), w1) \<Rightarrow>
                    (Inr (Some (failed_result
                       (''Cannot archive #'' @ channel_name
                        @ '': Failed to verify target channel''))), w1)
                | r \<Rightarrow> r))"

text \<open>
  The archive call itself. When the response is not ok the function reaches its end
  without a \<^verbatim>\<open>return\<close>.
\<close>

definition archive_call ::
  "client \<Rightarrow> string \<Rightarrow> string \<Rightarrow> string option \<Rightarrow> world \<Rightarrow> ChannelActionResult option io"
where
  "archive_call client channel_id channel_name target_channel w =
     (case remote client (ConversationsArchive channel_id) w of
        (Inl e, w1) \<Rightarrow> (Inl e, w1)
      | (Inr response, w1) \<Rightarrow>
          if r_ok response then
            (Inr (Some (ok_result
               (''Successfully archived #'' @ channel_name
                @ (case target_channel of
                     None \<Rightarrow> []
                   | Some t \<Rightarrow> if t \<noteq> [] then '' (with redirect to #'' @ t @ '')'' else [])))),
             w1)
          else (Inr None, w1))"

definition archive_channel_body ::
  "client \<Rightarrow> string \<Rightarrow> string \<Rightarrow> string option \<Rightarrow> chan_info list option \<Rightarrow> world
     \<Rightarrow> (ChannelActionResult option io) option"
where
  "archive_channel_body client channel_id channel_name target_channel current_channels w =
     (case archive_precheck client channel_id channel_name w of
        (Inl e, w1) \<Rightarrow> Some (Inl e, w1)
      | (Inr (Some res), w1) \<Rightarrow> Some (Inr (Some res), w1)
      | (Inr None, w1) \<Rightarrow>
          (case target_channel of
             None \<Rightarrow> Some (archive_call client channel_id channel_name None w1)
           | Some t \<Rightarrow>
               if t = [] then Some (archive_call client channel_id channel_name (Some t) w1)
               else
                 (case archive_redirect client channel_id channel_name (lstrip_hash t)
                         current_channels w1 of
                    None \<Rightarrow> None
                  | Some (Inl e, w2) \<Rightarrow> Some (Inl e, w2)
                  | Some (Inr (Some res), w2) \<Rightarrow> Some (Inr (Some res), w2)
                  | Some (Inr None, w2) \<Rightarrow>
                      Some (archive_call client channel_id channel_name
                              (Some (lstrip_hash t)) w2))))"

text \<open>The outer \<^verbatim>\<open>try\<close> of \<^verbatim>\<open>archive_channel\<close> with its \<^verbatim>\<open>except SlackApiError\<close>.\<close>

definition archive_channel ::
  "client \<Rightarrow> string \<Rightarrow> string \<Rightarrow> string option \<Rightarrow> chan_info list option \<Rightarrow> world
     \<Rightarrow> (ChannelActionResult option io) option"
where
  "archive_channel client channel_id channel_name target_channel current_channels w =
     (case archive_channel_body client channel_id channel_name target_channel
             current_channels w of
        None \<Rightarrow> None
      | Some (Inl (SlackApiError error ra txt), w1) \<Rightarrow>
          Some (Inr (Some (failed_result (archive_error_message channel_name error))), w1)
      | Some r \<Rightarrow> Some r)"


subsection \<open>\<^verbatim>\<open>update_description\<close>\<close>

definition max_retries :: nat where
  "max_retries = 3"

text \<open>\<^verbatim>\<open>error_messages.get(error, ...)\<close> of \<^verbatim>\<open>update_description\<close>.\<close>

definition description_error_message :: "string \<Rightarrow> string \<Rightarrow> string" where
  "description_error_message channel_name error =
     (if error = ''not_in_channel'' then
        ''Cannot update description for #'' @ channel_name
        @ '': You must be a member of the channel''
      else if error = ''is_archived'' then
        ''Cannot update description for #'' @ channel_name @ '': Channel is archived''
      else if error = ''missing_scope'' then
        ''Cannot update description for #'' @ channel_name @ '': Missing required permissions''
      else if error = ''not_authorized'' then
        ''Cannot update description for #'' @ channel_name @ '': You don'' @ apostrophe
        @ ''t have permission to update the description''
      else ''Failed to update description for #'' @ channel_name @ '': '' @ error)"

text \<open>
  The first inner \<^verbatim>\<open>try\<close>: \<open>Inr (Inl r)\<close> returns \<open>r\<close>, \<open>Inr (Inr m)\<close> goes on with
  \<^verbatim>\<open>was_member = m\<close>. When it raises, \<^verbatim>\<open>was_member\<close> still has its initial value
  \<^verbatim>\<open>True\<close>.
\<close>

definition description_precheck ::
  "client \<Rightarrow> string \<Rightarrow> string \<Rightarrow> world \<Rightarrow> (ChannelActionResult + bool) io"
where
  "description_precheck client channel_id channel_name w =
     (case remote client (ConversationsInfo channel_id) w of
        (Inr response, w1) \<Rightarrow>
          (case r_channel response of
             None \<Rightarrow> (Inl (key_error ''channel''), w1)
           | Some channel_info \<Rightarrow>
               if ci_is_archived channel_info then
                 (Inr (Inl (failed_result
                    (''Cannot update description for #'' @ channel_name
                     @ '': Channel is archived''))), w1)
               else (Inr (Inr (ci_is_member channel_info)), w1))
      | (Inl (SlackApiError error ra txt), w1) \<Rightarrow>
          if error = ''channel_not_found'' then
            (Inr (Inl (failed_result
               (''Cannot update description for #'' @ channel_name
                @ '': Channel not found''))), w1)
          else (Inl (SlackApiError error ra txt), w1)
      | (Inl e, w1) \<Rightarrow> (Inl e, w1))"

text \<open>
  Joining the channel when the caller is not a member. Three error codes are hard
  failures; any other \<^verbatim>\<open>SlackApiError\<close> is logged and the update goes on.
\<close>

definition join_for_update ::
  "client \<Rightarrow> string \<Rightarrow> string \<Rightarrow> world \<Rightarrow> ChannelActionResult option io"
where
  "join_for_update client channel_id channel_name w =
     (case remote client (ConversationsJoin channel_id) w of
        (Inr join_response, w1) \<Rightarrow>
          if \<not> r_ok join_response then
            (Inr (Some (failed_result
               (''Cannot update description for #'' @ channel_name
                @ '': Failed to join channel''))), w1)
          else (Inr None, w1)
      | (Inl (SlackApiError error ra txt), w1) \<Rightarrow>
          if error \<in> set [''method_not_supported_for_channel_type'', ''channel_not_found'',
                          ''missing_scope'']
          then
            (Inr (Some (failed_result
               (''Cannot update description for #'' @ channel_name
                @ '': Not a member and unable to join ('' @ error @ '')''))), w1)
          else (Inr None, w1)
      | (Inl e, w1) \<Rightarrow> (Inl e, w1))"

text \<open>
  \<^verbatim>\<open>if not was_member: try: leave except SlackApiError: ...\<close>, as it stands after a
  returned response, after a failed update, and after the retries: a
  \<^verbatim>\<open>SlackApiError\<close> of the leave call is swallowed, any other exception escapes.
\<close>

definition leave_if_joined ::
  "client \<Rightarrow> string \<Rightarrow> bool \<Rightarrow> world \<Rightarrow> exn option \<times> world"
where
  "leave_if_joined client channel_id was_member w =
     (if \<not> was_member then
        (case remote client (ConversationsLeave channel_id) w of
           (Inl (SlackApiError error ra txt), w1) \<Rightarrow> (None, w1)
         | (Inl e, w1) \<Rightarrow> (Some e, w1)
         | (Inr response, w1) \<Rightarrow> (None, w1))
      else (None, w))"

text \<open>
  The retry loop. It ends by a \<^verbatim>\<open>return\<close>, by an exception, or by leaving the loop
  (\<^verbatim>\<open>break\<close>, or the loop condition) with the value of \<^verbatim>\<open>retry_count\<close>.
\<close>

datatype loop_exit = Returned ChannelActionResult | Raised exn | Exited nat

function set_purpose_loop ::
  "client \<Rightarrow> string \<Rightarrow> string \<Rightarrow> string \<Rightarrow> bool \<Rightarrow> nat \<Rightarrow> world \<Rightarrow> loop_exit \<times> world"
where
  "set_purpose_loop client channel_id channel_name new_description was_member retry_count w =
     (if retry_count < max_retries then
        (case remote client (ConversationsSetPurpose channel_id new_description) w of
           (Inr response, w1) \<Rightarrow>
             (case leave_if_joined client channel_id was_member w1 of
                (Some e, w2) \<Rightarrow> (Raised e, w2)
              | (None, w2) \<Rightarrow>
                  if r_ok response then
                    (Returned (ok_result
                       (''Successfully updated description for #'' @ channel_name)), w2)
                  else (Exited retry_count, w2))
         | (Inl (SlackApiError error ra txt), w1) \<Rightarrow>
             if error = ''ratelimited'' then
               (case to_int ra 5 of
                  Inl e \<Rightarrow> (Raised e, w1)
                | Inr retry_after \<Rightarrow>
                    set_purpose_loop client channel_id channel_name new_description was_member
                      (retry_count + 1) (sleep retry_after w1))
             else
               (case leave_if_joined client channel_id was_member w1 of
                  (Some e, w2) \<Rightarrow> (Raised e, w2)
                | (None, w2) \<Rightarrow>
                    (Returned (failed_result (description_error_message channel_name error)),
                     w2))
         | (Inl e, w1) \<Rightarrow> (Raised e, w1))
      else (Exited retry_count, w))"
  by pat_completeness auto
termination
  by (relation "measure (\<lambda>(client, channel_id, channel_name, new_description, was_member,
        retry_count, w). max_retries - retry_count)") auto

declare set_purpose_loop.simps [simp del]

text \<open>
  After the loop: with the retries used up, leave and fail; otherwise the function
  reaches the end of its \<^verbatim>\<open>try\<close> without a \<^verbatim>\<open>return\<close>. The text renders
  \<^verbatim>\<open>max_retries\<close>, which is 3.
\<close>

definition after_retries ::
  "client \<Rightarrow> string \<Rightarrow> string \<Rightarrow> bool \<Rightarrow> nat \<Rightarrow> world \<Rightarrow> ChannelActionResult option io"
where
  "after_retries client channel_id channel_name was_member retry_count w =
     (if retry_count \<ge> max_retries then
        (case leave_if_joined client channel_id was_member w of
           (Some e, w1) \<Rightarrow> (Inl e, w1)
         | (None, w1) \<Rightarrow>
             (Inr (Some (failed_result
                (''Failed to update description for #'' @ channel_name
                 @ '': Rate limit exceeded after 3 retries''))), w1))
      else (Inr None, w))"

text \<open>The body of the outer \<^verbatim>\<open>try\<close>, with the value of \<^verbatim>\<open>was_member\<close> when it ends.\<close>

definition update_description_body ::
  "client \<Rightarrow> string \<Rightarrow> string \<Rightarrow> string \<Rightarrow> world \<Rightarrow> ChannelActionResult option io \<times> bool"
where
  "update_description_body client channel_id channel_name new_description w =
     (case description_precheck client channel_id channel_name w of
        (Inl e, w1) \<Rightarrow> ((Inl e, w1), True)
      | (Inr (Inl res), w1) \<Rightarrow> ((Inr (Some res), w1), True)
      | (Inr (Inr was_member), w1) \<Rightarrow>
          (case (if \<not> was_member then join_for_update client channel_id channel_name w1
                 else (Inr None, w1)) of
             (Inl e, w2) \<Rightarrow> ((Inl e, w2), was_member)
           | (Inr (Some res), w2) \<Rightarrow> ((Inr (Some res), w2), was_member)
           | (Inr None, w2) \<Rightarrow>
               (case set_purpose_loop client channel_id channel_name new_description
                       was_member 0 w2 of
                  (Returned res, w3) \<Rightarrow> ((Inr (Some res), w3), was_member)
                | (Raised e, w3) \<Rightarrow> ((Inl e, w3), was_member)
                | (Exited retry_count, w3) \<Rightarrow>
                    (after_retries client channel_id channel_name was_member retry_count w3,
                     was_member))))"

text \<open>
  The \<^verbatim>\<open>except Exception\<close> of \<^verbatim>\<open>update_description\<close>: leave the channel if
  \<^verbatim>\<open>was_member\<close> is false, whatever that call does, and fail.
\<close>

definition update_description ::
  "client \<Rightarrow> string \<Rightarrow> string \<Rightarrow> string \<Rightarrow> world \<Rightarrow> ChannelActionResult option io"
where
  "update_description client channel_id channel_name new_description w =
     (case update_description_body client channel_id channel_name new_description w of
        ((Inl KeyboardInterrupt, w1), was_member) \<Rightarrow> (Inl KeyboardInterrupt, w1)
      | ((Inl e, w1), was_member) \<Rightarrow>
          (let w2 = (if \<not> was_member
                     then snd (remote client (ConversationsLeave channel_id) w1) else w1)
           in (Inr (Some (failed_result
                 (''Unexpected error updating description for #'' @ channel_name @ '': ''
                  @ exn_text e))), w2))
      | ((Inr res, w1), was_member) \<Rightarrow> (Inr res, w1))"

subsection \<open>\<^verbatim>\<open>execute_action\<close>\<close>

definition execute_action_body ::
  "client \<Rightarrow> string \<Rightarrow> string \<Rightarrow> string \<Rightarrow> string option \<Rightarrow> chan_info list option \<Rightarrow> world
     \<Rightarrow> (ChannelActionResult option io) option"
where
  "execute_action_body client channel_id channel_name action target_value current_channels w =
     (if action = KEEP then
        Some (Inr (Some (ok_result (''Channel '' @ channel_name @ '' kept as is''))), w)
      else if action = NEW then
        Some (Inr (Some (failed_result
          (''Channel '' @ channel_name @ '' needs review - please change action from ''
           @ apostrophe @ ''new'' @ apostrophe))), w)
      else if action = ARCHIVE then
        archive_channel client channel_id channel_name target_value current_channels w
      else if action = RENAME then
        (case target_value of
           None \<Rightarrow>
             Some (Inr (Some (failed_result
               (''New name not specified for renaming '' @ channel_name))), w)
         | Some t \<Rightarrow>
             if t = [] then
               Some (Inr (Some (failed_result
                 (''New name not specified for renaming '' @ channel_name))), w)
             else Some (rename_channel client channel_id channel_name t w))
      else if action = UPDATE_DESCRIPTION then
        (case target_value of
           None \<Rightarrow>
             Some (Inr (Some (failed_result
               (''New description not specified for '' @ channel_name))), w)
         | Some t \<Rightarrow>
             if str_strip t = [] then
               Some (Inr (Some (failed_result
                 (''New description not specified for '' @ channel_name))), w)
             else Some (update_description client channel_id channel_name t w))
      else
        Some (Inr (Some (failed_result
          (''Unknown action '' @ apostrophe @ action @ apostrophe @ '' for channel ''
           @ channel_name))), w))"

text \<open>
  \<^verbatim>\<open>execute_action\<close>: the dispatch inside \<^verbatim>\<open>try\<close>, with \<^verbatim>\<open>except SlackApiError\<close> and
  \<^verbatim>\<open>except Exception\<close>. The outer \<open>None\<close> is a run that never ends (the paginated target
  search); \<open>Inr None\<close> is the Python value \<^verbatim>\<open>None\<close>.
\<close>

definition execute_action ::
  "client \<Rightarrow> string \<Rightarrow> string \<Rightarrow> string \<Rightarrow> string option \<Rightarrow> chan_info list option \<Rightarrow> world
     \<Rightarrow> (ChannelActionResult option io) option"
where
  "execute_action client channel_id channel_name action target_value current_channels w =
     (case execute_action_body client channel_id channel_name action target_value
             current_channels w of
        None \<Rightarrow> None
      | Some (Inl (SlackApiError error ra txt), w1) \<Rightarrow>
          Some (Inr (Some (failed_result
            (''Slack API error for '' @ channel_name @ '': '' @ error))), w1)
      | Some (Inl (PyException txt), w1) \<Rightarrow>
          Some (Inr (Some (failed_result
            (''Unexpected error for '' @ channel_name @ '': '' @ txt))), w1)
      | Some r \<Rightarrow> Some r)"


section \<open>The orchestrator (\<^verbatim>\<open>execute_channel_actions\<close>)\<close>

text \<open>The local variables of \<^verbatim>\<open>execute_channel_actions\<close> that the loop updates.\<close>

record run_state =
  successful :: nat
  failed :: nat
  skipped :: nat
  last_action :: "(channel \<times> string \<times> string option) option"
  successful_channel_ids :: "string list"

definition initial_state :: run_state where
  "initial_state = \<lparr>successful = 0, failed = 0, skipped = 0, last_action = None,
     successful_channel_ids = []\<rparr>"

text \<open>
  How the body of the \<^verbatim>\<open>for\<close> loop ends for one row: the loop goes on (the end of the
  body, or \<^verbatim>\<open>continue\<close>), the loop is left (\<^verbatim>\<open>break\<close>), or an exception escapes the loop
  to the handlers of the outer \<^verbatim>\<open>try\<close>.
\<close>

datatype flow = Continue | Break | Escapes exn

text \<open>
  The second half of the loop body, for an approved row outside dry-run mode: the live
  state of the channel is checked, the handler is called without a channel list, and the
  counters are updated. The three checks leave by \<^verbatim>\<open>continue\<close>, so they skip the pacing
  sleep; the \<^verbatim>\<open>except Exception\<close> of this \<^verbatim>\<open>try\<close> also catches the \<^verbatim>\<open>AttributeError\<close> of
  \<^verbatim>\<open>result.success\<close> when the handler returned \<^verbatim>\<open>None\<close>.
\<close>

definition verify_and_execute ::
  "client \<Rightarrow> channel \<Rightarrow> string \<Rightarrow> string \<Rightarrow> string \<Rightarrow> run_state \<Rightarrow> world
     \<Rightarrow> ((flow \<times> run_state) \<times> world) option"
where
  "verify_and_execute client channel channel_id channel_name action st w =
     (case get_channel_info client channel_id w of
        (Inl KeyboardInterrupt, w1) \<Rightarrow> Some ((Escapes KeyboardInterrupt, st), w1)
      | (Inl e, w1) \<Rightarrow> Some ((Continue, st\<lparr>failed := failed st + 1\<rparr>), sleep 1 w1)
      | (Inr None, w1) \<Rightarrow> Some ((Continue, st\<lparr>failed := failed st + 1\<rparr>), w1)
      | (Inr (Some channel_info), w1) \<Rightarrow>
          if ci_is_archived channel_info then
            Some ((Continue, st\<lparr>failed := failed st + 1\<rparr>), w1)
          else if ci_name channel_info \<noteq> channel_name then
            Some ((Continue, st\<lparr>failed := failed st + 1\<rparr>), w1)
          else
            (case execute_action client channel_id channel_name action
                    (dict_get_default (ch_target_value channel) []) None w1 of
               None \<Rightarrow> None
             | Some (Inl KeyboardInterrupt, w2) \<Rightarrow> Some ((Escapes KeyboardInterrupt, st), w2)
             | Some (Inl e, w2) \<Rightarrow>
                 Some ((Continue, st\<lparr>failed := failed st + 1\<rparr>), sleep 1 w2)
             | Some (Inr None, w2) \<Rightarrow>
                 Some ((Continue, st\<lparr>failed := failed st + 1\<rparr>), sleep 1 w2)
             | Some (Inr (Some result), w2) \<Rightarrow>
                 if success result then
                   Some ((Continue,
                          st\<lparr>successful := successful st + 1,
                             last_action :=
                               Some (channel, action, dict_get (ch_target_value channel)),
                             successful_channel_ids :=
                               successful_channel_ids st @ [channel_id]\<rparr>),
                         sleep 1 w2)
                 else Some ((Continue, st\<lparr>failed := failed st + 1\<rparr>), sleep 1 w2)))"

text \<open>
  The loop body for one row. A row is invalid when \<^verbatim>\<open>channel_id\<close> or \<^verbatim>\<open>name\<close> is falsy.
  \<^verbatim>\<open>channel.get("action", "").lower()\<close> raises \<^verbatim>\<open>AttributeError\<close> when the key holds
  \<^verbatim>\<open>None\<close>, outside any inner \<^verbatim>\<open>try\<close>.
\<close>

definition process_channel ::
  "lowering \<Rightarrow> client \<Rightarrow> bool \<Rightarrow> chan_info list \<Rightarrow> channel \<Rightarrow> run_state \<Rightarrow> world
     \<Rightarrow> ((flow \<times> run_state) \<times> world) option"
where
  "process_channel lower client dry_run current_channels channel st w =
     (case (dict_get (ch_channel_id channel), dict_get (ch_name channel)) of
        (Some channel_id, Some channel_name) \<Rightarrow>
          if channel_id = [] \<or> channel_name = [] then
            Some ((Continue, st\<lparr>skipped := skipped st + 1\<rparr>), w)
          else
            (case dict_get_default (ch_action channel) [] of
               None \<Rightarrow>
                 Some ((Escapes (PyException
                    (apostrophe @ ''NoneType'' @ apostrophe @ '' object has no attribute ''
                     @ apostrophe @ ''lower'' @ apostrophe)), st), w)
             | Some a \<Rightarrow>
                 (let action = lower a in
                  if action = [] \<or> action = KEEP then Some ((Continue, st), w)
                  else if action \<notin> set ChannelAction_values then
                    Some ((Continue, st\<lparr>skipped := skipped st + 1\<rparr>), w)
                  else
                    (case get_user_approval lower client channel action
                            (dict_get (ch_target_value channel)) (Some current_channels) w of
                       (Inl KeyboardInterrupt, w1) \<Rightarrow> Some ((Break, st), w1)
                     | (Inl e, w1) \<Rightarrow> Some ((Continue, st\<lparr>failed := failed st + 1\<rparr>), w1)
                     | (Inr approved, w1) \<Rightarrow>
                         if \<not> approved then
                           Some ((Continue, st\<lparr>skipped := skipped st + 1\<rparr>), w1)
                         else if dry_run then
                           Some ((Continue, st\<lparr>successful := successful st + 1\<rparr>), w1)
                         else
                           verify_and_execute client channel channel_id channel_name action
                             st w1)))
      | _ \<Rightarrow> Some ((Continue, st\<lparr>skipped := skipped st + 1\<rparr>), w))"

text \<open>
  The \<^verbatim>\<open>for\<close> loop: how it ended (all rows done, \<^verbatim>\<open>break\<close>, or an escaping
  exception) and the state after the last row processed.
\<close>

datatype loop_end = Completed | Interrupted | Escaped exn

fun process_channels ::
  "lowering \<Rightarrow> client \<Rightarrow> bool \<Rightarrow> chan_info list \<Rightarrow> channel list \<Rightarrow> run_state \<Rightarrow> world
     \<Rightarrow> ((loop_end \<times> run_state) \<times> world) option"
where
  "process_channels lower client dry_run current_channels [] st w = Some ((Completed, st), w)"
| "process_channels lower client dry_run current_channels (channel # rest) st w =
     (case process_channel lower client dry_run current_channels channel st w of
        None \<Rightarrow> None
      | Some ((Continue, st1), w1) \<Rightarrow>
          process_channels lower client dry_run current_channels rest st1 w1
      | Some ((Break, st1), w1) \<Rightarrow> Some ((Interrupted, st1), w1)
      | Some ((Escapes e, st1), w1) \<Rightarrow> Some ((Escaped e, st1), w1))"

text \<open>
  What the \<^verbatim>\<open>finally\<close> block emits and returns: the three counts, their total, the name
  of the channel in the undo note (when the last successful action was an archive), and
  the returned list of channel ids.
\<close>

record execution_summary =
  sum_successful :: nat
  sum_failed :: nat
  sum_skipped :: nat
  sum_total :: nat
  undo_note :: "string option"
  returned_ids :: "string list"

definition summary :: "run_state \<Rightarrow> execution_summary" where
  "summary st =
     \<lparr>sum_successful = successful st,
      sum_failed = failed st,
      sum_skipped = skipped st,
      sum_total = successful st + failed st + skipped st,
      undo_note =
        (case last_action st of
           None \<Rightarrow> None
         | Some (channel, action, target_value) \<Rightarrow>
             if action = ARCHIVE then dict_get (ch_name channel) else None),
      returned_ids = successful_channel_ids st\<rparr>"

text \<open>
  \<^verbatim>\<open>execute_channel_actions(channels, dry_run)\<close>, for a client that has been constructed.
  The rows are sorted, the snapshot is fetched, the loop runs; both handlers of the outer
  \<^verbatim>\<open>try\<close> only print, and the \<^verbatim>\<open>finally\<close> block emits the summary and returns. \<open>None\<close>
  is a run that never ends.
\<close>

definition execute_channel_actions ::
  "lowering \<Rightarrow> client \<Rightarrow> channel list \<Rightarrow> bool \<Rightarrow> world \<Rightarrow> (execution_summary \<times> world) option"
where
  "execute_channel_actions lower client channels dry_run w =
     (let channels = sorted_channels lower channels in
      case get_all_channels client w of
        None \<Rightarrow> None
      | Some (Inl e, w1) \<Rightarrow> Some (summary initial_state, w1)
      | Some (Inr current_channels, w1) \<Rightarrow>
          (case process_channels lower client dry_run current_channels channels initial_state w1 of
             None \<Rightarrow> None
           | Some ((e, st), w2) \<Rightarrow> Some (summary st, w2)))"


section \<open>What a run shows to the outside\<close>





text \<open>A row is invalid when its channel id or its name is absent, \<^verbatim>\<open>None\<close> or empty.\<close>

definition invalid_row :: "channel \<Rightarrow> bool" where
  "invalid_row channel =
     (\<not> truthy (dict_get (ch_channel_id channel)) \<or> \<not> truthy (dict_get (ch_name channel)))"




section \<open>Concrete inputs\<close>

text \<open>Rows, responses and clients for the concrete runs below.\<close>

definition row :: "string \<Rightarrow> string \<Rightarrow> string \<Rightarrow> field \<Rightarrow> channel" where
  "row channel_id channel_name action target_value =
     \<lparr>ch_channel_id = Str channel_id, ch_name = Str channel_name, ch_action = Str action,
      ch_target_value = target_value, ch_member_count = None\<rparr>"

definition plain_response :: response where
  "plain_response =
     \<lparr>r_ok = True, r_error = None, r_channels = [], r_next_cursor = None, r_channel = None\<rparr>"

definition live_channel :: "string \<Rightarrow> string \<Rightarrow> bool \<Rightarrow> chan_info" where
  "live_channel channel_id channel_name is_member =
     \<lparr>ci_id = channel_id, ci_name = channel_name, ci_is_archived = False,
      ci_is_general = False, ci_is_member = is_member, ci_num_members = None,
      ci_last_read = None\<rparr>"

definition empty_world :: world where
  "empty_world = \<lparr>trace = [], stdin = []\<rparr>"

text \<open>
  A workspace with the two channels \<^verbatim>\<open>proj-x\<close> (C1) and \<^verbatim>\<open>old-team\<close> (C2), of which the
  caller is a member, where every call succeeds.
\<close>

definition workspace :: "chan_info list" where
  "workspace = [live_channel ''C1'' ''proj-x'' True, live_channel ''C2'' ''old-team'' True]"

definition calm_client :: client where
  "calm_client tr c =
     (case c of
        ConversationsList e l cur \<Rightarrow> Returns (plain_response\<lparr>r_channels := workspace\<rparr>)
      | ConversationsInfo channel_id \<Rightarrow>
          Returns (plain_response\<lparr>r_channel := find (\<lambda>ch. ci_id ch = channel_id) workspace\<rparr>)
      | ConversationsRename channel_id new_name \<Rightarrow>
          Returns (plain_response\<lparr>r_channel := Some (live_channel channel_id new_name True)\<rparr>)
      | _ \<Rightarrow> Returns plain_response)"

definition priority_batch :: "channel list" where
  "priority_batch =
     [row ''C1'' ''one'' ''keep'' Missing,
      row ''C2'' ''two'' ''ARCHIVE'' Missing,
      row ''C3'' ''three'' ''Rename'' (Str ''third''),
      row ''C4'' ''four'' ''archive'' Missing,
      row ''C5'' ''five'' ''new'' Missing,
      row ''C6'' ''six'' ''rename'' (Str ''sixth'')]"

text \<open>A terminal on which the given lines are typed, before anything has happened.\<close>

definition typed :: "string list \<Rightarrow> world" where
  "typed lines = \<lparr>trace = [], stdin = lines\<rparr>"

text \<open>An archive listed before a rename.\<close>

definition order_batch :: "channel list" where
  "order_batch =
     [row ''C2'' ''old-team'' ''archive'' Missing,
      row ''C1'' ''proj-x'' ''Rename'' (Str ''proj-y'')]"








text \<open>A row whose action key holds \<^verbatim>\<open>None\<close>, followed by a description update.\<close>

definition none_batch :: "channel list" where
  "none_batch =
     [\<lparr>ch_channel_id = Str ''C1'', ch_name = Str ''proj-x'', ch_action = NoneVal,
       ch_target_value = Missing, ch_member_count = None\<rparr>,
      row ''C2'' ''old-team'' ''update_description'' (Str ''hello'')]"

section \<open>Properties\<close>

subsection \<open>Effects of the read-only steps\<close>











subsection \<open>The gate\<close>






subsection \<open>Listing is read-only\<close>



subsection \<open>The loop body\<close>




subsection \<open>Dry runs\<close>








subsection \<open>Batches of keep rows\<close>





subsection \<open>The processing order\<close>

lemma sorted_channels_sorted:
  "sorted (map (action_priority lower) (sorted_channels lower channels))"
  by (simp add: sorted_channels_def)

lemma sorted_channels_stable:
  "filter (\<lambda>c. action_priority lower c = k) (sorted_channels lower channels)
     = filter (\<lambda>c. action_priority lower c = k) channels"
  by (simp add: sorted_channels_def sort_key_stable)

lemma sorted_channels_precedes:
  assumes "i < length (sorted_channels lower channels)"
    and "j < length (sorted_channels lower channels)"
    and "action_priority lower (sorted_channels lower channels ! i)
           < action_priority lower (sorted_channels lower channels ! j)"
  shows "i < j"
proof (rule ccontr)
  assume "\<not> i < j"
  then have "j \<le> i" by simp
  with sorted_channels_sorted [of lower channels] assms(1)
  have "map (action_priority lower) (sorted_channels lower channels) ! j
          \<le> map (action_priority lower) (sorted_channels lower channels) ! i"
    by (simp add: sorted_iff_nth_mono del: nth_map)
  with assms show False by simp
qed

lemma action_priority_cases:
  "action_priority lower c =
     (case ch_action c of
        Str a \<Rightarrow>
          if a = [] then 3
          else if lower a = RENAME then 0
          else if lower a = ARCHIVE then 1
          else if lower a = KEEP then 2
          else 3
      | _ \<Rightarrow> 3)"
  by (auto simp: action_priority_def Let_def KEEP_def RENAME_def ARCHIVE_def
      split: field.splits)

lemma sorted_channels_idem:
  "sorted_channels lower (sorted_channels lower channels) = sorted_channels lower channels"
  unfolding sorted_channels_def
  by (rule sort_key_id_if_sorted) simp

lemma process_channels_append:
  "process_channels lower client dry_run cur (pre @ post) st w =
     (case process_channels lower client dry_run cur pre st w of
        Some ((Completed, st1), w1) \<Rightarrow> process_channels lower client dry_run cur post st1 w1
      | r \<Rightarrow> r)"
proof (induction pre arbitrary: st w)
  case Nil
  show ?case by simp
next
  case (Cons channel pre)
  show ?case
  proof (cases "process_channel lower client dry_run cur channel st w")
    case None
    then show ?thesis by simp
  next
    case (Some r)
    obtain fl st1 w1 where r: "r = ((fl, st1), w1)" by (metis surj_pair)
    show ?thesis
    proof (cases fl)
      case Continue
      with Some r Cons.IH [of st1 w1] show ?thesis by simp
    next
      case Break
      with Some r show ?thesis by simp
    next
      case (Escapes e)
      with Some r show ?thesis by simp
    qed
  qed
qed

lemma execute_channel_actions_loop:
  "execute_channel_actions lower client channels dry_run w =
     (case get_all_channels client w of
        None \<Rightarrow> None
      | Some (Inl e, w1) \<Rightarrow> Some (summary initial_state, w1)
      | Some (Inr current_channels, w1) \<Rightarrow>
          (case process_channels lower client dry_run current_channels
                  (sorted_channels lower channels) initial_state w1 of
             None \<Rightarrow> None
           | Some ((e, st), w2) \<Rightarrow> Some (summary st, w2)))"
  by (simp add: execute_channel_actions_def)

text \<open>
  Claim C4. \<^verbatim>\<open>execute_channel_actions\<close> runs its loop over \<open>sorted_channels\<close> of the batch,
  head first: for every split of that list, all rows of the first part are dealt with
  before any row of the second part, so a run on a batch is the run on the batch arranged
  by \<open>sorted_channels\<close>. The sort key is 0 for a rename, 1 for an archive, 2 for a keep and
  3 for anything else, read through \<^verbatim>\<open>lower()\<close>; a row whose action is absent, empty or
  \<^verbatim>\<open>None\<close> has key 3. In the processed order the keys never decrease, so a row with a
  smaller key stands before every row with a larger key: every rename before every
  archive, every archive before every keep and every other row. The rows of each key keep
  their original relative order.
\<close>

theorem processing_order_by_priority:
  "execute_channel_actions lower client channels dry_run w =
     (case get_all_channels client w of
        None \<Rightarrow> None
      | Some (Inl e, w1) \<Rightarrow> Some (summary initial_state, w1)
      | Some (Inr current_channels, w1) \<Rightarrow>
          (case process_channels lower client dry_run current_channels
                  (sorted_channels lower channels) initial_state w1 of
             None \<Rightarrow> None
           | Some ((e, st), w2) \<Rightarrow> Some (summary st, w2)))
   \<and> (\<forall>pre post cur st w1. sorted_channels lower channels = pre @ post \<longrightarrow>
         process_channels lower client dry_run cur (sorted_channels lower channels) st w1 =
           (case process_channels lower client dry_run cur pre st w1 of
              Some ((Completed, st1), w2) \<Rightarrow>
                process_channels lower client dry_run cur post st1 w2
            | r \<Rightarrow> r))
   \<and> execute_channel_actions lower client (sorted_channels lower channels) dry_run w
       = execute_channel_actions lower client channels dry_run w
   \<and> (\<forall>c. action_priority lower c =
        (case ch_action c of
           Str a \<Rightarrow>
             if a = [] then 3
             else if lower a = RENAME then 0
             else if lower a = ARCHIVE then 1
             else if lower a = KEEP then 2
             else 3
         | _ \<Rightarrow> 3))
   \<and> sorted (map (action_priority lower) (sorted_channels lower channels))
   \<and> (\<forall>i j. i < length (sorted_channels lower channels)
          \<and> j < length (sorted_channels lower channels)
          \<and> action_priority lower (sorted_channels lower channels ! i)
                < action_priority lower (sorted_channels lower channels ! j)
        \<longrightarrow> i < j)
   \<and> (\<forall>k. filter (\<lambda>c. action_priority lower c = k) (sorted_channels lower channels)
          = filter (\<lambda>c. action_priority lower c = k) channels)"
proof (intro conjI allI impI)
  show "execute_channel_actions lower client channels dry_run w =
     (case get_all_channels client w of
        None \<Rightarrow> None
      | Some (Inl e, w1) \<Rightarrow> Some (summary initial_state, w1)
      | Some (Inr current_channels, w1) \<Rightarrow>
          (case process_channels lower client dry_run current_channels
                  (sorted_channels lower channels) initial_state w1 of
             None \<Rightarrow> None
           | Some ((e, st), w2) \<Rightarrow> Some (summary st, w2)))"
    by (rule execute_channel_actions_loop)
next
  fix pre post cur st w1
  assume "sorted_channels lower channels = pre @ post"
  then show "process_channels lower client dry_run cur (sorted_channels lower channels) st w1 =
           (case process_channels lower client dry_run cur pre st w1 of
              Some ((Completed, st1), w2) \<Rightarrow>
                process_channels lower client dry_run cur post st1 w2
            | r \<Rightarrow> r)"
    by (simp only: process_channels_append)
next
  show "execute_channel_actions lower client (sorted_channels lower channels) dry_run w
       = execute_channel_actions lower client channels dry_run w"
    by (simp only: execute_channel_actions_loop sorted_channels_idem)
next
  fix c
  show "action_priority lower c =
        (case ch_action c of
           Str a \<Rightarrow>
             if a = [] then 3
             else if lower a = RENAME then 0
             else if lower a = ARCHIVE then 1
             else if lower a = KEEP then 2
             else 3
         | _ \<Rightarrow> 3)"
    by (rule action_priority_cases)
next
  show "sorted (map (action_priority lower) (sorted_channels lower channels))"
    by (rule sorted_channels_sorted)
next
  fix i j
  assume "i < length (sorted_channels lower channels)
          \<and> j < length (sorted_channels lower channels)
          \<and> action_priority lower (sorted_channels lower channels ! i)
                < action_priority lower (sorted_channels lower channels ! j)"
  then show "i < j" using sorted_channels_precedes by blast
next
  fix k
  show "filter (\<lambda>c. action_priority lower c = k) (sorted_channels lower channels)
          = filter (\<lambda>c. action_priority lower c = k) channels"
    by (rule sorted_channels_stable)
qed

theorem processing_order_by_priority_witness:
  "sorted_channels ascii_lower order_batch =
     [row ''C1'' ''proj-x'' ''Rename'' (Str ''proj-y'')] @ [row ''C2'' ''old-team'' ''archive'' Missing]
   \<and> action_priority ascii_lower (sorted_channels ascii_lower order_batch ! 0)
        < action_priority ascii_lower (sorted_channels ascii_lower order_batch ! 1)
   \<and> (0::nat) < 1
   \<and> execute_channel_actions ascii_lower calm_client order_batch False (typed [''y'', ''y''])
       = Some (\<lparr>sum_successful = 2, sum_failed = 0, sum_skipped = 0, sum_total = 2,
                 undo_note = Some ''old-team'', returned_ids = [''C1'', ''C2'']\<rparr>,
               \<lparr>trace = [Call (ConversationsList True (Some 200) None),
                    Call (ConversationsInfo ''C1''), Prompt, Call (ConversationsInfo ''C1''),
                    Call (ConversationsRename ''C1'' ''proj-y''), Sleep 1,
                    Call (ConversationsInfo ''C2''), Prompt, Call (ConversationsInfo ''C2''),
                    Call (ConversationsInfo ''C2''), Call (ConversationsArchive ''C2''), Sleep 1],
                 stdin = []\<rparr>)
   \<and> execute_channel_actions ascii_lower calm_client
        (sorted_channels ascii_lower order_batch) False (typed [''y'', ''y''])
       = execute_channel_actions ascii_lower calm_client order_batch False (typed [''y'', ''y''])"
proof -
  note inst = processing_order_by_priority
    [of ascii_lower calm_client order_batch False "typed [''y'', ''y'']"]
  have order: "sorted_channels ascii_lower order_batch =
     [row ''C1'' ''proj-x'' ''Rename'' (Str ''proj-y'')] @ [row ''C2'' ''old-team'' ''archive'' Missing]"
    by code_simp
  have keys: "action_priority ascii_lower (sorted_channels ascii_lower order_batch ! 0)
        < action_priority ascii_lower (sorted_channels ascii_lower order_batch ! 1)"
    by code_simp
  have len: "0 < length (sorted_channels ascii_lower order_batch)"
    "1 < length (sorted_channels ascii_lower order_batch)"
    by (simp_all add: order)
  have prec: "\<forall>i j. i < length (sorted_channels ascii_lower order_batch)
          \<and> j < length (sorted_channels ascii_lower order_batch)
          \<and> action_priority ascii_lower (sorted_channels ascii_lower order_batch ! i)
                < action_priority ascii_lower (sorted_channels ascii_lower order_batch ! j)
        \<longrightarrow> i < j"
    using inst by (elim conjE)
  have step: "(0::nat) < 1"
    using prec [rule_format, OF conjI [OF len(1) conjI [OF len(2) keys]]] .
  have run: "execute_channel_actions ascii_lower calm_client order_batch False (typed [''y'', ''y''])
       = Some (\<lparr>sum_successful = 2, sum_failed = 0, sum_skipped = 0, sum_total = 2,
                 undo_note = Some ''old-team'', returned_ids = [''C1'', ''C2'']\<rparr>,
               \<lparr>trace = [Call (ConversationsList True (Some 200) None),
                    Call (ConversationsInfo ''C1''), Prompt, Call (ConversationsInfo ''C1''),
                    Call (ConversationsRename ''C1'' ''proj-y''), Sleep 1,
                    Call (ConversationsInfo ''C2''), Prompt, Call (ConversationsInfo ''C2''),
                    Call (ConversationsInfo ''C2''), Call (ConversationsArchive ''C2''), Sleep 1],
                 stdin = []\<rparr>)"
    by code_simp
  have same: "execute_channel_actions ascii_lower calm_client
        (sorted_channels ascii_lower order_batch) False (typed [''y'', ''y''])
       = execute_channel_actions ascii_lower calm_client order_batch False (typed [''y'', ''y''])"
    using inst by (elim conjE)
  show ?thesis by (intro conjI order keys step run same)
qed

subsection \<open>Dry runs: claims C7 and C9\<close>





subsection \<open>Batches of keep rows: claim C1\<close>




subsection \<open>Abort: claim C6\<close>













subsection \<open>Name validation: claim C2\<close>
















subsection \<open>Results that are not results: claim C3\<close>


subsection \<open>Leaving after a description update: claim C8\<close>


subsection \<open>The retry bound: claim C5\<close>

















subsection \<open>Case of the action: claim C10\<close>






















subsection \<open>A row whose action holds \<^verbatim>\<open>None\<close>\<close>

text \<open>
  The sort key of a row whose action key holds \<^verbatim>\<open>None\<close> is 3, but the loop calls
  \<^verbatim>\<open>lower()\<close> on the value before it tests it: the \<^verbatim>\<open>AttributeError\<close> escapes the loop,
  outside any inner \<^verbatim>\<open>try\<close>, and the rows after it are not processed. In the run below
  the description update of the second row is never prompted.
\<close>

lemma none_action_escapes:
  assumes "\<not> invalid_row channel" and "ch_action channel = NoneVal"
  shows "action_priority lower channel = 3
     \<and> (\<exists>e. process_channel lower client dry_run cur channel st w = Some ((Escapes e, st), w))"
  using assms
  by (cases "ch_channel_id channel"; cases "ch_name channel")
     (auto simp: action_priority_def process_channel_def invalid_row_def)

lemma none_action_ends_run:
  "execute_channel_actions ascii_lower calm_client none_batch False (typed [''y''])
     = Some (\<lparr>sum_successful = 0, sum_failed = 0, sum_skipped = 0, sum_total = 0,
               undo_note = None, returned_ids = []\<rparr>,
             \<lparr>trace = [Call (ConversationsList True (Some 200) None)], stdin = [''y'']\<rparr>)"
  by code_simp

end
